theory Spec2Isabelle
  imports Main
begin

section \<open>Strings, paths and the operating system\<close>

text \<open>
  The program is \<^verbatim>\<open>run_export.py\<close>: one function \<^verbatim>\<open>export_plant_json\<close> that
  checks three input paths, creates two directories, writes an AutoCAD script file,
  and runs the AutoCAD executable on it; a helper \<^verbatim>\<open>default_plugin_dll\<close>; and the
  entry point \<^verbatim>\<open>main\<close>.

  A Python \<^verbatim>\<open>str\<close> is modelled by its UTF-8 bytes, an Isabelle \<open>string\<close>; writing a
  text with \<^verbatim>\<open>encoding="utf-8"\<close> then stores the bytes as they are. The backslash,
  the double quote and the line feed are written as character codes.
\<close>

definition bs :: string where
  "bs = [CHR 0x5C]"

definition dq :: string where
  "dq = [CHR 0x22]"

definition nl :: string where
  "nl = [CHR 0x0A]"

text \<open>
  \<^verbatim>\<open>sep.join(xs)\<close> and \<^verbatim>\<open>s.split(sep)\<close> of Python, the separator being one character
  for \<open>split\<close>. \<^verbatim>\<open>"".split("/")\<close> is \<^verbatim>\<open>[""]\<close>.
\<close>

fun join :: "string \<Rightarrow> string list \<Rightarrow> string" where
  "join sep [] = []"
| "join sep [x] = x"
| "join sep (x # y # ys) = x @ sep @ join sep (y # ys)"

fun split :: "char \<Rightarrow> string \<Rightarrow> string list" where
  "split c [] = [[]]"
| "split c (x # xs) =
     (if x = c then [] # split c xs
      else (case split c xs of
              [] \<Rightarrow> [[x]]
            | y # ys \<Rightarrow> (x # y) # ys))"

text \<open>
  The lines of a text: the pieces between its line feeds. A final line feed ends the
  last line and opens no new one.
\<close>

definition text_lines :: "string \<Rightarrow> string list" where
  "text_lines s =
     (if s = [] then []
      else if last s = CHR 0x0A then split (CHR 0x0A) (butlast s)
      else split (CHR 0x0A) s)"

subsection \<open>pathlib\<close>

text \<open>
  \<^verbatim>\<open>pathlib.Path\<close> takes the flavour of the host it runs on. The model takes the
  POSIX flavour: the separator is the slash, and a backslash or a colon is a character of
  a name like any other. A path is its root (empty, one slash, or two slashes when the
  text starts with exactly two) and the list of its components, with empty components
  and single dots dropped and \<^verbatim>\<open>..\<close> kept. \<open>str\<close> prints it back, \<open>parent\<close> drops
  the last component. No operation of the program resolves a path against the current
  directory.
\<close>

record path =
  anchor :: string
  tail :: "string list"

definition splitroot :: "string \<Rightarrow> string \<times> string" where
  "splitroot part =
     (let stripped_part = dropWhile (\<lambda>c. c = CHR ''/'') part in
      if part \<noteq> [] \<and> hd part = CHR ''/'' then
        (if length part - length stripped_part = 2 then (''//'', stripped_part)
         else (''/'', stripped_part))
      else ([], part))"

definition Path :: "string \<Rightarrow> path" where
  "Path s =
     (case splitroot s of
        (root, rel) \<Rightarrow>
          \<lparr>anchor = root, tail = filter (\<lambda>x. x \<noteq> [] \<and> x \<noteq> ''.'') (split (CHR ''/'') rel)\<rparr>)"

definition str :: "path \<Rightarrow> string" where
  "str p = (let s = anchor p @ join ''/'' (tail p) in if s = [] then ''.'' else s)"

definition parent :: "path \<Rightarrow> path" where
  "parent p = (if tail p = [] then p else p\<lparr>tail := butlast (tail p)\<rparr>)"

text \<open>\<^verbatim>\<open>p / key\<close>: a rooted right operand replaces the left one.\<close>

definition joinpath :: "path \<Rightarrow> string \<Rightarrow> path" where
  "joinpath p key =
     (let q = Path key in
      if anchor q \<noteq> [] then q else p\<lparr>tail := tail p @ tail q\<rparr>)"

definition is_absolute :: "path \<Rightarrow> bool" where
  "is_absolute p \<longleftrightarrow> anchor p \<noteq> []"

subsection \<open>The world: file system, environment, child processes\<close>

datatype node = File string | Dir

datatype error =
    FileNotFoundError string
  | FileExistsError string
  | NotADirectoryError string
  | IsADirectoryError string
  | PermissionError string
  | OSError string

text \<open>The path an exception carries: its \<^verbatim>\<open>filename\<close>, or its one argument.\<close>

fun error_path :: "error \<Rightarrow> string" where
  "error_path (FileNotFoundError s) = s"
| "error_path (FileExistsError s) = s"
| "error_path (NotADirectoryError s) = s"
| "error_path (IsADirectoryError s) = s"
| "error_path (PermissionError s) = s"
| "error_path (OSError s) = s"

text \<open>
  Why the operating system may refuse every access to a path, \<^verbatim>\<open>os.stat\<close> included:
  a name longer than the file system allows (\<^verbatim>\<open>OSError\<close>, errno 36), or a directory on
  the way that may not be searched (\<^verbatim>\<open>PermissionError\<close>).
\<close>

datatype fault = NameTooLong | AccessDenied

fun fault_error :: "fault \<Rightarrow> string \<Rightarrow> error" where
  "fault_error NameTooLong s = OSError s"
| "fault_error AccessDenied s = PermissionError s"

text \<open>
  One call of \<^verbatim>\<open>subprocess.run(cmd, env=env, cwd=cwd)\<close>: its three arguments, and the
  file system the child finds when it starts.
\<close>

record launch =
  argv :: "string list"
  env :: "string \<rightharpoonup> string"
  cwd :: string
  files :: "path \<rightharpoonup> node"

text \<open>
  The world the program runs in. \<open>fs\<close> maps a path to what is stored there;
  \<open>fault\<close> tells where the operating system refuses every access, and why;
  \<open>denied\<close> tells where the operating system refuses to create or write an entry
  (permissions, a full disk); \<open>environ\<close> is \<^verbatim>\<open>os.environ\<close>; \<open>module_dir\<close> is
  \<^verbatim>\<open>Path(__file__).resolve().parent\<close>; \<open>spawn\<close> is the operating system starting a
  child and waiting for it: it fails to start it, or gives the child's exit code and
  the file system the child leaves behind. The CAD host is a black box, so \<open>spawn\<close>
  is arbitrary. \<open>launched\<close> lists the calls of \<^verbatim>\<open>subprocess.run\<close> made so far.
\<close>

record world =
  fs :: "path \<rightharpoonup> node"
  fault :: "path \<rightharpoonup> fault"
  denied :: "path \<Rightarrow> bool"
  environ :: "string \<rightharpoonup> string"
  module_dir :: path
  spawn :: "launch \<Rightarrow> error + int \<times> (path \<rightharpoonup> node)"
  launched :: "launch list"

text \<open>\<^verbatim>\<open>os.stat(p)\<close>: what is stored at the path, or the error of the operating system.\<close>

definition os_stat :: "world \<Rightarrow> path \<Rightarrow> error + node" where
  "os_stat w p =
     (case fault w p of
        Some f \<Rightarrow> Inl (fault_error f (str p))
      | None \<Rightarrow>
          (case fs w p of
             None \<Rightarrow> Inl (FileNotFoundError (str p))
           | Some n \<Rightarrow> Inr n))"

text \<open>
  \<^verbatim>\<open>pathlib._ignore_error\<close>: the errors that mean the path is not there (errno
  \<^verbatim>\<open>ENOENT\<close> and \<^verbatim>\<open>ENOTDIR\<close>; \<^verbatim>\<open>EBADF\<close> and \<^verbatim>\<open>ELOOP\<close> do not arise here).
\<close>

fun ignore_error :: "error \<Rightarrow> bool" where
  "ignore_error (FileNotFoundError _) = True"
| "ignore_error (NotADirectoryError _) = True"
| "ignore_error _ = False"

text \<open>
  \<^verbatim>\<open>Path.exists()\<close> and \<^verbatim>\<open>Path.is_dir()\<close>, as pathlib writes them:
  \<^verbatim>\<open>
    try:
        self.stat()
    except OSError as e:
        if not _ignore_error(e):
            raise
        return False
    return True
  \<close>
  An error of \<^verbatim>\<open>os.stat\<close> that does not mean "not there" is raised again, so the
  answer is a truth value or an exception.
\<close>

definition exists :: "world \<Rightarrow> path \<Rightarrow> error + bool" where
  "exists w p =
     (case os_stat w p of
        Inr _ \<Rightarrow> Inr True
      | Inl e \<Rightarrow> if \<not> ignore_error e then Inl e else Inr False)"

definition is_dir :: "world \<Rightarrow> path \<Rightarrow> error + bool" where
  "is_dir w p =
     (case os_stat w p of
        Inr n \<Rightarrow> Inr (n = Dir)
      | Inl e \<Rightarrow> if \<not> ignore_error e then Inl e else Inr False)"

text \<open>
  \<^verbatim>\<open>os.mkdir(p)\<close>: the path must be one the operating system reaches, the entry must
  not exist, its parent must be a directory.
\<close>

definition os_mkdir :: "world \<Rightarrow> path \<Rightarrow> error + world" where
  "os_mkdir w p =
     (case fault w p of
        Some f \<Rightarrow> Inl (fault_error f (str p))
      | None \<Rightarrow>
          (case fs w p of
             Some _ \<Rightarrow> Inl (FileExistsError (str p))
           | None \<Rightarrow>
               (case fs w (parent p) of
                  None \<Rightarrow> Inl (FileNotFoundError (str p))
                | Some (File _) \<Rightarrow> Inl (NotADirectoryError (str p))
                | Some Dir \<Rightarrow>
                    if denied w p then Inl (PermissionError (str p))
                    else Inr (w\<lparr>fs := (fs w)(p \<mapsto> Dir)\<rparr>))))"

fun is_FileNotFoundError :: "error \<Rightarrow> bool" where
  "is_FileNotFoundError (FileNotFoundError _) = True"
| "is_FileNotFoundError _ = False"

text \<open>
  \<^verbatim>\<open>Path.mkdir(parents, exist_ok)\<close>, as pathlib writes it:
  \<^verbatim>\<open>
    try:
        os.mkdir(self, mode)
    except FileNotFoundError:
        if not parents or self.parent == self:
            raise
        self.parent.mkdir(parents=True, exist_ok=True)
        self.mkdir(mode, parents=False, exist_ok=exist_ok)
    except OSError:
        if not exist_ok or not self.is_dir():
            raise
  \<close>
  The result is the world it leaves (directories created before a failure stay) and
  the error raised, if any. \<^verbatim>\<open>is_dir\<close> is called only when \<^verbatim>\<open>exist_ok\<close> holds, and an
  error it raises takes the place of the one being handled.
\<close>

function mkdir :: "world \<Rightarrow> path \<Rightarrow> bool \<Rightarrow> bool \<Rightarrow> world \<times> error option" where
  "mkdir w p parents exist_ok =
     (case os_mkdir w p of
        Inr w' \<Rightarrow> (w', None)
      | Inl e \<Rightarrow>
          if is_FileNotFoundError e then
            (if \<not> parents \<or> parent p = p then (w, Some e)
             else (case mkdir w (parent p) True True of
                     (w1, Some e1) \<Rightarrow> (w1, Some e1)
                   | (w1, None) \<Rightarrow> mkdir w1 p False exist_ok))
          else if \<not> exist_ok then (w, Some e)
          else (case is_dir w p of
                  Inl e2 \<Rightarrow> (w, Some e2)
                | Inr d \<Rightarrow> if \<not> d then (w, Some e) else (w, None)))"
  by pat_completeness auto
termination
proof (relation "measure (\<lambda>(w, p, parents, exist_ok). 2 * length (tail p) + (if parents then 1 else 0))")
  show "wf (measure (\<lambda>(w, p, parents, exist_ok). 2 * length (tail p) + (if parents then 1 else 0)))"
    by simp
next
  fix w :: world and p :: path and parents exist_ok :: bool and e :: error
  assume "\<not> (\<not> parents \<or> parent p = p)"
  then have ne: "tail p \<noteq> []" and par: parents
    by (auto simp: parent_def)
  then show "((w, parent p, True, True), (w, p, parents, exist_ok))
      \<in> measure (\<lambda>(w, p, parents, exist_ok). 2 * length (tail p) + (if parents then 1 else 0))"
    by (cases "tail p") (auto simp: parent_def)
next
  fix w :: world and p :: path and parents exist_ok :: bool and e :: error
    and x :: "world \<times> error option" and w1 :: world and y :: "error option"
  assume "\<not> (\<not> parents \<or> parent p = p)"
  then show "((w1, p, False, exist_ok), (w, p, parents, exist_ok))
      \<in> measure (\<lambda>(w, p, parents, exist_ok). 2 * length (tail p) + (if parents then 1 else 0))"
    by auto
qed

text \<open>
  \<^verbatim>\<open>Path.write_text(data, encoding="utf-8")\<close>: opens the file for writing, which
  truncates it, and writes the bytes of the text.
\<close>

definition write_text :: "world \<Rightarrow> path \<Rightarrow> string \<Rightarrow> error + world" where
  "write_text w p data =
     (case fault w p of
        Some f \<Rightarrow> Inl (fault_error f (str p))
      | None \<Rightarrow>
          if fs w p = Some Dir then Inl (IsADirectoryError (str p))
          else (case fs w (parent p) of
                  None \<Rightarrow> Inl (FileNotFoundError (str p))
                | Some (File _) \<Rightarrow> Inl (NotADirectoryError (str p))
                | Some Dir \<Rightarrow>
                    if denied w p then Inl (PermissionError (str p))
                    else Inr (w\<lparr>fs := (fs w)(p \<mapsto> File data)\<rparr>)))"

text \<open>
  \<^verbatim>\<open>subprocess.run(cmd, env=env, cwd=cwd)\<close> followed by reading \<^verbatim>\<open>returncode\<close>: the
  call is recorded, the child runs to its end, and its exit code comes back. A child
  that cannot be started raises.
\<close>

definition subprocess_run ::
  "world \<Rightarrow> string list \<Rightarrow> (string \<rightharpoonup> string) \<Rightarrow> string \<Rightarrow> world \<times> (error + int)" where
  "subprocess_run w cmd e dir =
     (let l = \<lparr>argv = cmd, env = e, cwd = dir, files = fs w\<rparr>;
          w' = w\<lparr>launched := launched w @ [l]\<rparr>
      in case spawn w l of
           Inl err \<Rightarrow> (w', Inl err)
         | Inr (returncode, fs') \<Rightarrow> (w'\<lparr>fs := fs'\<rparr>, Inr returncode))"

section \<open>The program\<close>

text \<open>The script text of lines 35 to 43, a function of the plugin path.\<close>

definition scr_text :: "path \<Rightarrow> string" where
  "scr_text plugin_dll =
     join nl
       [''_.NETLOAD'',
        dq @ str plugin_dll @ dq,
        ''_.EXPORTPLANTJSON'',
        ''_.QUIT'',
        ''Y'']
     @ nl"

text \<open>
  \<^verbatim>\<open>export_plant_json\<close> takes the world and gives the world it leaves, with the
  exception it raised (\<open>Inl\<close>) or the exit code it returned (\<open>Inr\<close>). The five path
  arguments are texts (an \<^verbatim>\<open>os.PathLike\<close> argument counts by its text); the keyword
  arguments \<^verbatim>\<open>acad_exe\<close> and \<^verbatim>\<open>workdir\<close> are passed like the others, and their
  defaults are constants below. The branches follow lines 16 to 59 of the source; an
  exception raised inside \<^verbatim>\<open>exists()\<close> leaves the function like any other.
\<close>

definition export_plant_json ::
  "world \<Rightarrow> string \<Rightarrow> string \<Rightarrow> string \<Rightarrow> string \<Rightarrow> string \<Rightarrow> world \<times> (error + int)" where
  "export_plant_json w project_xml0 out_json0 plugin_dll0 acad_exe workdir0 =
     (let acad = Path acad_exe;
          project_xml = Path project_xml0;
          out_json = Path out_json0;
          plugin_dll = Path plugin_dll0;
          workdir = Path workdir0
      in
      case exists w acad of
        Inl e \<Rightarrow> (w, Inl e)
      | Inr acad_exists \<Rightarrow>
      if \<not> acad_exists then (w, Inl (FileNotFoundError (str acad)))
      else
      case exists w project_xml of
        Inl e \<Rightarrow> (w, Inl e)
      | Inr project_xml_exists \<Rightarrow>
      if \<not> project_xml_exists then (w, Inl (FileNotFoundError (str project_xml)))
      else
      case exists w plugin_dll of
        Inl e \<Rightarrow> (w, Inl e)
      | Inr plugin_dll_exists \<Rightarrow>
      if \<not> plugin_dll_exists then (w, Inl (FileNotFoundError (str plugin_dll)))
      else
        (case mkdir w workdir True True of
           (w1, Some e) \<Rightarrow> (w1, Inl e)
         | (w1, None) \<Rightarrow>
             (case mkdir w1 (parent out_json) True True of
                (w2, Some e) \<Rightarrow> (w2, Inl e)
              | (w2, None) \<Rightarrow>
                  (let scr_path = joinpath workdir ''run.scr'' in
                   case write_text w2 scr_path (scr_text plugin_dll) of
                     Inl e \<Rightarrow> (w2, Inl e)
                   | Inr w3 \<Rightarrow>
                       (let env0 = environ w3;
                            env1 = env0(''PLANT_PROJECT_XML'' \<mapsto> str project_xml);
                            env2 = env1(''PLANT_JSON_OUT'' \<mapsto> str out_json);
                            cmd = [str acad, ''/product'', ''PLNT3D'', ''/b'', str scr_path]
                        in subprocess_run w3 cmd env2 (str workdir))))))"

text \<open>The defaults of the keyword arguments \<^verbatim>\<open>acad_exe\<close> and \<^verbatim>\<open>workdir\<close>.\<close>

definition default_acad_exe :: string where
  "default_acad_exe =
     ''C:'' @ bs @ ''Program Files'' @ bs @ ''Autodesk'' @ bs @ ''AutoCAD 2026'' @ bs @ ''acad.exe''"

definition default_workdir :: string where
  "default_workdir = ''C:'' @ bs @ ''PlantAutomationRun''"

definition default_plugin_dll :: "world \<Rightarrow> path" where
  "default_plugin_dll w =
     (let repo_root = module_dir w in
      joinpath (joinpath (joinpath (joinpath (joinpath repo_root ''addin'') ''bin'') ''Release'')
        ''net8.0-windows'') ''PlantJsonExporter.dll'')"

text \<open>\<^verbatim>\<open>os.environ.get(key, default)\<close>.\<close>

definition environ_get :: "world \<Rightarrow> string \<Rightarrow> string \<Rightarrow> string" where
  "environ_get w key dflt = (case environ w key of None \<Rightarrow> dflt | Some v \<Rightarrow> v)"

definition default_project_xml :: string where
  "default_project_xml =
     ''C:'' @ bs @ ''Users'' @ bs @ ''aleja'' @ bs @ ''Downloads'' @ bs @ ''NIRAS P3D Demo Project''
       @ bs @ ''P3D-FBUK Example Project'' @ bs @ ''Project.xml''"

definition default_out_json :: string where
  "default_out_json = ''C:'' @ bs @ ''PlantAutomationRun'' @ bs @ ''plant_export.json''"

definition main :: "world \<Rightarrow> world \<times> (error + int)" where
  "main w =
     (let project_xml = environ_get w ''PLANT_PROJECT_XML'' default_project_xml;
          out_json = environ_get w ''PLANT_JSON_OUT'' default_out_json;
          plugin_dll = environ_get w ''PLANT_PLUGIN_DLL'' (str (default_plugin_dll w))
      in case is_dir w (Path out_json) of
           Inl e \<Rightarrow> (w, Inl e)
         | Inr out_json_is_dir \<Rightarrow>
             (let out_json' =
                (if out_json_is_dir then str (joinpath (Path out_json) ''plant_export.json'')
                 else out_json)
              in export_plant_json w project_xml out_json' plugin_dll
                   default_acad_exe default_workdir))"

text \<open>
  \<^verbatim>\<open>raise SystemExit(main())\<close> under \<^verbatim>\<open>if __name__ == "__main__"\<close>: the interpreter
  ends with \<^verbatim>\<open>SystemExit\<close> carrying the value of \<^verbatim>\<open>main()\<close>, or with the exception
  \<^verbatim>\<open>main\<close> raised, uncaught.
\<close>

datatype ending = SystemExit int | Uncaught error

text \<open>
  The exit status the operating system reports for the interpreter (CPython on a POSIX
  host with 64-bit \<^verbatim>\<open>long\<close>). The code of \<^verbatim>\<open>SystemExit\<close> is read as a C \<^verbatim>\<open>long\<close>
  (a value that does not fit reads as \<open>-1\<close>), and the parent sees its low eight bits; an
  uncaught exception ends the interpreter with status 1.
\<close>

definition exit_status :: "ending \<Rightarrow> int" where
  "exit_status e =
     (case e of
        SystemExit code \<Rightarrow>
          if - (2 ^ 63) \<le> code \<and> code < 2 ^ 63 then code mod 256 else 255
      | Uncaught _ \<Rightarrow> 1)"

definition run_module :: "world \<Rightarrow> world \<times> ending" where
  "run_module w =
     (case main w of
        (w', Inr code) \<Rightarrow> (w', SystemExit code)
      | (w', Inl e) \<Rightarrow> (w', Uncaught e))"

section \<open>Auxiliary notions\<close>

text \<open>
  What lines 22 to 27 raise for a path that the check does not find: the exception of
  the check itself, or \<open>FileNotFoundError\<close> with the text of the path.
\<close>

definition check_error :: "world \<Rightarrow> path \<Rightarrow> error" where
  "check_error w p =
     (case exists w p of
        Inl e \<Rightarrow> e
      | Inr _ \<Rightarrow> FileNotFoundError (str p))"

text \<open>A text that begins with a slash: on a POSIX host, an absolute path.\<close>

definition begins_with_slash :: "string \<Rightarrow> bool" where
  "begins_with_slash s = (case s of [] \<Rightarrow> False | c # _ \<Rightarrow> c = CHR ''/'')"

text \<open>Two worlds that differ at most in their file systems.\<close>

definition unchanged_but_fs :: "world \<Rightarrow> world \<Rightarrow> bool" where
  "unchanged_but_fs w w' \<longleftrightarrow>
     fault w' = fault w \<and> denied w' = denied w \<and> environ w' = environ w \<and>
     module_dir w' = module_dir w \<and>
     spawn w' = spawn w \<and> launched w' = launched w"

text \<open>
  The paths \<open>Path\<close> produces: one of the three roots, and components that are not
  empty, not a single dot, and free of slashes.
\<close>

definition wf_path :: "path \<Rightarrow> bool" where
  "wf_path p \<longleftrightarrow>
     anchor p \<in> {[], ''/'', ''//''} \<and>
     (\<forall>x \<in> set (tail p). x \<noteq> [] \<and> x \<noteq> ''.'' \<and> CHR ''/'' \<notin> set x)"

text \<open>
  Small worlds to run the program in. In the first, the host executable, two project
  files and the plugin are files under the current directory, a third project file has an
  absolute path, \<^verbatim>\<open>out\<close> is a directory,
  a path whose first name is longer than 255 characters is refused as too long, and the
  host leaves the file system as it is and exits with code 7. The second has the files
  that \<open>main\<close> falls back on, and names an existing directory as the output path. The
  third is the second with a host that is killed by signal 9, which \<^verbatim>\<open>subprocess\<close>
  reports as the return code \<open>-9\<close>.
\<close>

definition demo_world :: world where
  "demo_world =
     \<lparr>fs = [Path ''.'' \<mapsto> Dir,
             Path ''acad.exe'' \<mapsto> File [],
             Path ''Project.xml'' \<mapsto> File [],
             Path ''Other.xml'' \<mapsto> File [],
             Path ''/data/Project.xml'' \<mapsto> File [],
             Path ''Plant JsonExporter.dll'' \<mapsto> File [],
             Path ''out'' \<mapsto> Dir],
      fault = (\<lambda>p. if tail p \<noteq> [] \<and> 255 < length (hd (tail p)) then Some NameTooLong
                   else None),
      denied = (\<lambda>p. False),
      environ = [''PATH'' \<mapsto> ''/usr/bin''],
      module_dir = Path ''/repo'',
      spawn = (\<lambda>l. Inr (7, files l)),
      launched = []\<rparr>"

definition demo_main_world :: world where
  "demo_main_world =
     \<lparr>fs = [Path ''.'' \<mapsto> Dir,
             Path default_acad_exe \<mapsto> File [],
             Path default_project_xml \<mapsto> File [],
             Path ''/repo/addin/bin/Release/net8.0-windows/PlantJsonExporter.dll'' \<mapsto> File [],
             Path ''exports'' \<mapsto> Dir],
      fault = Map.empty,
      denied = (\<lambda>p. False),
      environ = [''PLANT_JSON_OUT'' \<mapsto> ''exports''],
      module_dir = Path ''/repo'',
      spawn = (\<lambda>l. Inr (7, files l)),
      launched = []\<rparr>"

definition demo_killed_world :: world where
  "demo_killed_world = demo_main_world\<lparr>spawn := (\<lambda>l. Inr (- 9, files l))\<rparr>"

section \<open>Facts about the library model\<close>

declare mkdir.simps [simp del]

lemma unchanged_but_fs_refl [simp]: "unchanged_but_fs w w"
  by (simp add: unchanged_but_fs_def)

lemma unchanged_but_fs_trans:
  "unchanged_but_fs w w1 \<Longrightarrow> unchanged_but_fs w1 w2 \<Longrightarrow> unchanged_but_fs w w2"
  by (simp add: unchanged_but_fs_def)

lemma os_mkdir_frame:
  "os_mkdir w p = Inr w' \<Longrightarrow> unchanged_but_fs w w'"
  by (auto simp: os_mkdir_def unchanged_but_fs_def split: option.splits node.splits if_splits)

lemma mkdir_frame:
  "unchanged_but_fs w (fst (mkdir w p parents exist_ok))"
proof (induction w p parents exist_ok rule: mkdir.induct)
  case (1 w p parents exist_ok)
  show ?case
  proof (cases "os_mkdir w p")
    case (Inr w')
    then show ?thesis
      using os_mkdir_frame [OF Inr] by (simp add: mkdir.simps [of w p])
  next
    case (Inl e)
    show ?thesis
    proof (cases "is_FileNotFoundError e \<and> \<not> (\<not> parents \<or> parent p = p)")
      case False
      then show ?thesis
        using Inl by (auto simp: mkdir.simps [of w p] split: sum.splits)
    next
      case True
      obtain w1 r1 where m1: "mkdir w (parent p) True True = (w1, r1)"
        by (cases "mkdir w (parent p) True True")
      have f1: "unchanged_but_fs w w1"
        using "1.IH"(1) [OF Inl] True m1 by simp
      show ?thesis
      proof (cases r1)
        case (Some e1)
        then show ?thesis
          using Inl True m1 f1 by (simp add: mkdir.simps [of w p])
      next
        case None
        have "unchanged_but_fs w1 (fst (mkdir w1 p False exist_ok))"
          using "1.IH"(2) [OF Inl _ _ _ None] True m1 by simp
        then have "unchanged_but_fs w (fst (mkdir w1 p False exist_ok))"
          using f1 unchanged_but_fs_trans by blast
        then show ?thesis
          using Inl True m1 None by (simp add: mkdir.simps [of w p])
      qed
    qed
  qed
qed

lemma write_text_frame:
  "write_text w p d = Inr w' \<Longrightarrow> unchanged_but_fs w w' \<and> fs w' = (fs w)(p \<mapsto> File d)"
  by (auto simp: write_text_def unchanged_but_fs_def split: option.splits node.splits if_splits)

lemma subprocess_run_outcome:
  "subprocess_run w cmd e dir = (w', r) \<Longrightarrow>
     launched w' = launched w @ [\<lparr>argv = cmd, env = e, cwd = dir, files = fs w\<rparr>] \<and>
     r = (case spawn w \<lparr>argv = cmd, env = e, cwd = dir, files = fs w\<rparr> of
            Inl err \<Rightarrow> Inl err | Inr (n, fs') \<Rightarrow> Inr n) \<and>
     environ w' = environ w \<and> spawn w' = spawn w"
  by (auto simp: subprocess_run_def Let_def split: sum.splits prod.splits)

lemma exists_raises:
  assumes "exists w p = Inl e"
  shows "error_path e = str p \<and> \<not> ignore_error e \<and> \<not> is_FileNotFoundError e"
proof -
  have "os_stat w p = Inl e" and ni: "\<not> ignore_error e"
    using assms by (auto simp: exists_def split: sum.splits if_splits)
  then have "error_path e = str p"
    by (cases "fault w p"; cases "the (fault w p)")
       (auto simp: os_stat_def split: option.splits)
  moreover have "\<not> is_FileNotFoundError e"
    using ni by (cases e) auto
  ultimately show ?thesis
    using ni by simp
qed


lemma export_plant_json_rejected:
  assumes "\<not> (exists w (Path acad_exe) = Inr True \<and> exists w (Path project_xml) = Inr True \<and>
              exists w (Path plugin_dll) = Inr True)"
  shows "export_plant_json w project_xml out_json plugin_dll acad_exe workdir =
     (w, Inl (check_error w
        (if exists w (Path acad_exe) \<noteq> Inr True then Path acad_exe
         else if exists w (Path project_xml) \<noteq> Inr True then Path project_xml
         else Path plugin_dll)))"
proof (cases "exists w (Path acad_exe)")
  case (Inl e)
  then show ?thesis
    by (simp add: export_plant_json_def check_error_def)
next
  case a: (Inr a)
  show ?thesis
  proof (cases a)
    case False
    then show ?thesis
      using a by (simp add: export_plant_json_def check_error_def)
  next
    case at: True
    show ?thesis
    proof (cases "exists w (Path project_xml)")
      case (Inl e)
      then show ?thesis
        using a at by (simp add: export_plant_json_def check_error_def)
    next
      case b: (Inr b)
      show ?thesis
      proof (cases b)
        case False
        then show ?thesis
          using a at b by (simp add: export_plant_json_def check_error_def)
      next
        case bt: True
        show ?thesis
        proof (cases "exists w (Path plugin_dll)")
          case (Inl e)
          then show ?thesis
            using a at b bt by (simp add: export_plant_json_def check_error_def)
        next
          case c: (Inr c)
          then have "\<not> c"
            using assms a at b bt by simp
          then show ?thesis
            using a at b bt c by (simp add: export_plant_json_def check_error_def)
        qed
      qed
    qed
  qed
qed

lemma export_plant_json_outcome:
  fixes w :: world and project_xml out_json plugin_dll acad_exe workdir :: string
  defines "r \<equiv> export_plant_json w project_xml out_json plugin_dll acad_exe workdir"
    and "cmd \<equiv> [str (Path acad_exe), ''/product'', ''PLNT3D'', ''/b'',
                  str (joinpath (Path workdir) ''run.scr'')]"
    and "e \<equiv> (environ w)(''PLANT_PROJECT_XML'' \<mapsto> str (Path project_xml),
                  ''PLANT_JSON_OUT'' \<mapsto> str (Path out_json))"
  shows "environ (fst r) = environ w \<and>
     ((\<exists>err. snd r = Inl err) \<and> launched (fst r) = launched w \<or>
      (\<exists>f. f (joinpath (Path workdir) ''run.scr'') = Some (File (scr_text (Path plugin_dll))) \<and>
           launched (fst r) = launched w @ [\<lparr>argv = cmd, env = e, cwd = str (Path workdir), files = f\<rparr>] \<and>
           snd r = (case spawn w \<lparr>argv = cmd, env = e, cwd = str (Path workdir), files = f\<rparr> of
                      Inl err \<Rightarrow> Inl err | Inr (n, fs') \<Rightarrow> Inr n) \<and>
           exists w (Path acad_exe) = Inr True \<and> exists w (Path project_xml) = Inr True \<and>
           exists w (Path plugin_dll) = Inr True))"
proof (cases "exists w (Path acad_exe) = Inr True \<and> exists w (Path project_xml) = Inr True \<and>
    exists w (Path plugin_dll) = Inr True")
  case False
  then show ?thesis
    using export_plant_json_rejected [of w acad_exe project_xml plugin_dll out_json workdir]
    by (simp add: r_def)
next
  case True
  obtain w1 r1 where m1: "mkdir w (Path workdir) True True = (w1, r1)"
    by (cases "mkdir w (Path workdir) True True")
  have f1: "unchanged_but_fs w w1"
    using mkdir_frame [of w "Path workdir" True True] m1 by simp
  show ?thesis
  proof (cases r1)
    case (Some e1)
    then show ?thesis
      using True m1 f1 by (simp add: r_def export_plant_json_def Let_def unchanged_but_fs_def)
  next
    case None
    obtain w2 r2 where m2: "mkdir w1 (parent (Path out_json)) True True = (w2, r2)"
      by (cases "mkdir w1 (parent (Path out_json)) True True")
    have f2: "unchanged_but_fs w w2"
      using mkdir_frame [of w1 "parent (Path out_json)" True True] m2 f1
      by (auto intro: unchanged_but_fs_trans)
    show ?thesis
    proof (cases r2)
      case (Some e2)
      then show ?thesis
        using True m1 None m2 f2 by (simp add: r_def export_plant_json_def Let_def unchanged_but_fs_def)
    next
      case r2: None
      show ?thesis
      proof (cases "write_text w2 (joinpath (Path workdir) ''run.scr'') (scr_text (Path plugin_dll))")
        case (Inl e3)
        then show ?thesis
          using True m1 None m2 r2 f2 by (simp add: r_def export_plant_json_def Let_def unchanged_but_fs_def)
      next
        case (Inr w3)
        have f3: "unchanged_but_fs w w3"
          and s3: "fs w3 (joinpath (Path workdir) ''run.scr'') = Some (File (scr_text (Path plugin_dll)))"
          using write_text_frame [OF Inr] f2 by (auto intro: unchanged_but_fs_trans)
        have e3: "(environ w3)(''PLANT_PROJECT_XML'' \<mapsto> str (Path project_xml),
                  ''PLANT_JSON_OUT'' \<mapsto> str (Path out_json)) = e"
          and sp: "spawn w3 = spawn w" and la: "launched w3 = launched w"
          and en: "environ w3 = environ w"
          using f3 by (simp_all add: e_def unchanged_but_fs_def)
        have run: "r = subprocess_run w3 cmd e (str (Path workdir))"
          using True m1 None m2 r2 Inr e3 by (simp add: r_def export_plant_json_def Let_def cmd_def)
        obtain w4 r4 where r4: "subprocess_run w3 cmd e (str (Path workdir)) = (w4, r4)"
          by (cases "subprocess_run w3 cmd e (str (Path workdir))")
        show ?thesis
          using subprocess_run_outcome [OF r4] run r4 s3 sp la en True
          by auto
      qed
    qed
  qed
qed

lemma split_not_Nil [simp]: "split c s \<noteq> []"
  by (induction s) (auto split: list.splits)

lemma split_no_sep: "x \<in> set (split c s) \<Longrightarrow> c \<notin> set x"
  by (induction s arbitrary: x) (auto split: list.splits if_splits)

lemma split_without_sep: "c \<notin> set x \<Longrightarrow> split c x = [x]"
  by (induction x) auto

lemma split_append_sep: "c \<notin> set x \<Longrightarrow> split c (x @ c # s) = x # split c s"
  by (induction x) auto

lemma split_join:
  "xs \<noteq> [] \<Longrightarrow> \<forall>x \<in> set xs. c \<notin> set x \<Longrightarrow> split c (join [c] xs) = xs"
proof (induction "[c]" xs rule: join.induct)
  case 1
  then show ?case by simp
next
  case (2 x)
  then show ?case by (simp add: split_without_sep)
next
  case (3 x y ys)
  then show ?case by (simp add: split_append_sep)
qed

lemma hd_join:
  "xs \<noteq> [] \<Longrightarrow> hd xs \<noteq> [] \<Longrightarrow> join sep xs \<noteq> [] \<and> hd (join sep xs) = hd (hd xs)"
  by (induction sep xs rule: join.induct) auto

lemma Path_wf: "wf_path (Path s)"
  by (auto simp: wf_path_def Path_def splitroot_def Let_def dest: split_no_sep)

lemma components_join:
  assumes "\<forall>x \<in> set xs. x \<noteq> [] \<and> x \<noteq> ''.'' \<and> CHR ''/'' \<notin> set x"
  shows "filter (\<lambda>x. x \<noteq> [] \<and> x \<noteq> ''.'') (split (CHR ''/'') (join ''/'' xs)) = xs"
proof (cases "xs = []")
  case True
  then show ?thesis by simp
next
  case False
  then have "split (CHR ''/'') (join ''/'' xs) = xs"
    using assms split_join [of xs "CHR ''/''"] by simp
  then show ?thesis
    using assms by (simp add: filter_id_conv)
qed

lemma dropWhile_join:
  assumes "\<forall>x \<in> set xs. x \<noteq> [] \<and> x \<noteq> ''.'' \<and> CHR ''/'' \<notin> set x"
  shows "dropWhile (\<lambda>c. c = CHR ''/'') (join ''/'' xs) = join ''/'' xs"
proof (cases xs)
  case Nil
  then show ?thesis by simp
next
  case (Cons x ys)
  then have "x \<noteq> []" and "CHR ''/'' \<notin> set x"
    using assms by auto
  then have "hd x \<noteq> CHR ''/''"
    by (cases x) auto
  moreover have "join ''/'' xs \<noteq> [] \<and> hd (join ''/'' xs) = hd x"
    using hd_join [of xs "''/''"] Cons \<open>x \<noteq> []\<close> by simp
  ultimately show ?thesis
    by (cases "join ''/'' xs") auto
qed

lemma Path_str:
  assumes "wf_path p"
  shows "Path (str p) = p"
proof -
  let ?j = "join ''/'' (tail p)"
  have comps: "\<forall>x \<in> set (tail p). x \<noteq> [] \<and> x \<noteq> ''.'' \<and> CHR ''/'' \<notin> set x"
    using assms by (simp add: wf_path_def)
  have drop: "dropWhile (\<lambda>c. c = CHR ''/'') ?j = ?j"
    by (rule dropWhile_join [OF comps])
  have filt: "filter (\<lambda>x. x \<noteq> [] \<and> x \<noteq> ''.'') (split (CHR ''/'') ?j) = tail p"
    by (rule components_join [OF comps])
  have hdj: "?j \<noteq> [] \<Longrightarrow> hd ?j \<noteq> CHR ''/''"
    using hd_dropWhile [of "\<lambda>c. c = CHR ''/''" ?j] drop by simp
  consider (rel) "anchor p = []" | (one) "anchor p = ''/''" | (two) "anchor p = ''//''"
    using assms by (auto simp: wf_path_def)
  then have "Path (str p) = \<lparr>anchor = anchor p, tail = tail p\<rparr>"
  proof cases
    case rel
    show ?thesis
    proof (cases "?j = []")
      case True
      then have "tail p = []"
        using filt by auto
      then show ?thesis
        using rel by (simp add: str_def Path_def splitroot_def)
    next
      case False
      then show ?thesis
        using rel hdj filt by (simp add: str_def Path_def splitroot_def Let_def)
    qed
  next
    case one
    then show ?thesis
      using drop filt by (simp add: str_def Path_def splitroot_def Let_def)
  next
    case two
    then show ?thesis
      using drop filt by (simp add: str_def Path_def splitroot_def Let_def)
  qed
  then show ?thesis
    by simp
qed

lemma joinpath_wf: "wf_path p \<Longrightarrow> wf_path (joinpath p key)"
  using Path_wf [of key] by (auto simp: joinpath_def Let_def wf_path_def)

lemma Path_str_Path [simp]: "Path (str (Path s)) = Path s"
  by (simp add: Path_str Path_wf)

lemma Path_str_joinpath [simp]: "Path (str (joinpath (Path s) key)) = joinpath (Path s) key"
  by (simp add: Path_str joinpath_wf Path_wf)

lemma length_join_snoc:
  "length (join sep (xs @ [x])) = length (join sep xs) + length x + (if xs = [] then 0 else length sep)"
  by (induction sep xs rule: join.induct) auto

lemma Path_plant_export: "Path ''plant_export.json'' = \<lparr>anchor = [], tail = [''plant_export.json'']\<rparr>"
  by (simp add: Path_def splitroot_def)

lemma str_joinpath_differs: "str (joinpath p ''plant_export.json'') \<noteq> str p"
proof -
  let ?j = "join ''/'' (tail p)"
  let ?j' = "join ''/'' (tail p @ [''plant_export.json''])"
  have len: "length ?j' = length ?j + 17 + (if tail p = [] then 0 else 1)"
    by (simp add: length_join_snoc)
  then have ne: "anchor p @ ?j' \<noteq> []"
    by auto
  have "length (str (joinpath p ''plant_export.json'')) = length (anchor p) + length ?j'"
    using ne by (simp add: joinpath_def Path_plant_export str_def Let_def)
  moreover have "length (str p) \<le> length (anchor p) + length ?j + 1"
    by (simp add: str_def Let_def)
  ultimately have "length (str p) < length (str (joinpath p ''plant_export.json''))"
    using len by simp
  then show ?thesis
    by auto
qed

lemma text_lines_scr_text:
  assumes "CHR 0x0A \<notin> set (str p)"
  shows "text_lines (scr_text p) =
     [''_.NETLOAD'', dq @ str p @ dq, ''_.EXPORTPLANTJSON'', ''_.QUIT'', ''Y'']"
proof -
  let ?ls = "[''_.NETLOAD'', dq @ str p @ dq, ''_.EXPORTPLANTJSON'', ''_.QUIT'', ''Y'']"
  have "\<forall>x \<in> set ?ls. CHR 0x0A \<notin> set x"
    using assms by (simp add: dq_def)
  then have "split (CHR 0x0A) (join [CHR 0x0A] ?ls) = ?ls"
    by (intro split_join) simp_all
  moreover have "scr_text p = join [CHR 0x0A] ?ls @ [CHR 0x0A]"
    by (simp add: scr_text_def nl_def)
  ultimately show ?thesis
    by (simp add: text_lines_def del: join.simps)
qed


lemma export_plant_json_started:
  fixes w :: world and project_xml out_json plugin_dll acad_exe workdir :: string
  defines "r \<equiv> export_plant_json w project_xml out_json plugin_dll acad_exe workdir"
  assumes started: "launched (fst r) \<noteq> launched w"
  shows "\<exists>l. launched (fst r) = launched w @ [l] \<and>
     argv l = [str (Path acad_exe), ''/product'', ''PLNT3D'', ''/b'',
               str (joinpath (Path workdir) ''run.scr'')] \<and>
     env l = (environ w)(''PLANT_PROJECT_XML'' \<mapsto> str (Path project_xml),
                         ''PLANT_JSON_OUT'' \<mapsto> str (Path out_json)) \<and>
     cwd l = str (Path workdir) \<and>
     files l (joinpath (Path workdir) ''run.scr'') = Some (File (scr_text (Path plugin_dll)))"
  using export_plant_json_outcome [of w project_xml out_json plugin_dll acad_exe workdir] started
  unfolding r_def by fastforce

lemma export_plant_json_success:
  assumes "snd (export_plant_json w project_xml out_json plugin_dll acad_exe workdir) = Inr n"
  shows "launched (fst (export_plant_json w project_xml out_json plugin_dll acad_exe workdir))
     \<noteq> launched w"
  using export_plant_json_outcome [of w project_xml out_json plugin_dll acad_exe workdir] assms
  by auto


lemma is_absolute_Path: "is_absolute (Path s) \<longleftrightarrow> begins_with_slash s"
  by (cases s) (auto simp: is_absolute_def Path_def splitroot_def Let_def begins_with_slash_def)

lemma str_begins_with_slash:
  assumes "wf_path p"
  shows "begins_with_slash (str p) \<longleftrightarrow> anchor p \<noteq> []"
proof (cases "anchor p = []")
  case False
  then have "anchor p = ''/'' \<or> anchor p = ''//''"
    using assms by (auto simp: wf_path_def)
  then show ?thesis
    by (auto simp: str_def Let_def begins_with_slash_def)
next
  case True
  have comps: "\<forall>x \<in> set (tail p). x \<noteq> [] \<and> x \<noteq> ''.'' \<and> CHR ''/'' \<notin> set x"
    using assms by (simp add: wf_path_def)
  let ?j = "join ''/'' (tail p)"
  have "dropWhile (\<lambda>c. c = CHR ''/'') ?j = ?j"
    by (rule dropWhile_join [OF comps])
  then have "?j \<noteq> [] \<Longrightarrow> hd ?j \<noteq> CHR ''/''"
    using hd_dropWhile [of "\<lambda>c. c = CHR ''/''" ?j] by simp
  then show ?thesis
    using True by (cases ?j) (auto simp: str_def Let_def begins_with_slash_def)
qed

lemma str_Path_begins_with_slash: "begins_with_slash (str (Path s)) \<longleftrightarrow> begins_with_slash s"
  using str_begins_with_slash [OF Path_wf, of s] is_absolute_Path [of s]
  by (simp add: is_absolute_def)

section \<open>The demonstration runs\<close>

lemma demo_run:
  "snd (export_plant_json demo_world ''Project.xml'' ''plant.json''
     ''Plant JsonExporter.dll'' ''acad.exe'' ''work'') = Inr 7"
  by code_simp

lemma demo_started:
  "launched (fst (export_plant_json demo_world ''Project.xml'' ''plant.json''
     ''Plant JsonExporter.dll'' ''acad.exe'' ''work'')) \<noteq> launched demo_world"
proof -
  have "length (launched (fst (export_plant_json demo_world ''Project.xml'' ''plant.json''
     ''Plant JsonExporter.dll'' ''acad.exe'' ''work''))) = 1"
    by code_simp
  moreover have "launched demo_world = []"
    by (simp add: demo_world_def)
  ultimately show ?thesis
    by auto
qed

lemma demo_other_started:
  "launched (fst (export_plant_json demo_world ''Other.xml'' ''other.json''
     ''Plant JsonExporter.dll'' ''acad.exe'' ''work2'')) \<noteq> launched demo_world"
proof -
  have "length (launched (fst (export_plant_json demo_world ''Other.xml'' ''other.json''
     ''Plant JsonExporter.dll'' ''acad.exe'' ''work2''))) = 1"
    by code_simp
  moreover have "launched demo_world = []"
    by (simp add: demo_world_def)
  ultimately show ?thesis
    by auto
qed

lemma demo_dir_started:
  "launched (fst (export_plant_json demo_world ''Project.xml'' ''out''
     ''Plant JsonExporter.dll'' ''acad.exe'' ''work'')) \<noteq> launched demo_world"
proof -
  have "length (launched (fst (export_plant_json demo_world ''Project.xml'' ''out''
     ''Plant JsonExporter.dll'' ''acad.exe'' ''work''))) = 1"
    by code_simp
  moreover have "launched demo_world = []"
    by (simp add: demo_world_def)
  ultimately show ?thesis
    by auto
qed

lemma demo_main_started: "launched (fst (main demo_main_world)) \<noteq> launched demo_main_world"
proof -
  have "length (launched (fst (main demo_main_world))) = 1"
    by code_simp
  moreover have "launched demo_main_world = []"
    by (simp add: demo_main_world_def)
  ultimately show ?thesis
    by auto
qed

lemma demo_untidy_started:
  "launched (fst (export_plant_json demo_world ''/data//Project.xml'' ''sub//plant.json''
     ''./Plant JsonExporter.dll'' ''.//acad.exe'' ''work/'')) \<noteq> launched demo_world"
proof -
  have "length (launched (fst (export_plant_json demo_world ''/data//Project.xml''
     ''sub//plant.json'' ''./Plant JsonExporter.dll'' ''.//acad.exe'' ''work/''))) = 1"
    by code_simp
  moreover have "launched demo_world = []"
    by (simp add: demo_world_def)
  ultimately show ?thesis
    by auto
qed

section \<open>The claims\<close>

text \<open>
  Claim C1, as stated, fails. It says that the script text has exactly four lines. In
  the run below the plugin path exists and has an embedded space; the script written to
  \<^verbatim>\<open>run.scr\<close> in the working directory has five lines, because the command that loads the plugin takes
  two: \<^verbatim>\<open>_.NETLOAD\<close> and, on a line of its own, the quoted path.
\<close>

theorem script_four_lines_counterexample:
  "exists demo_world (Path ''Plant JsonExporter.dll'') = Inr True \<and>
   snd (export_plant_json demo_world ''Project.xml'' ''plant.json''
     ''Plant JsonExporter.dll'' ''acad.exe'' ''work'') = Inr 7 \<and>
   fs (fst (export_plant_json demo_world ''Project.xml'' ''plant.json''
     ''Plant JsonExporter.dll'' ''acad.exe'' ''work'')) (joinpath (Path ''work'') ''run.scr'')
     = Some (File (scr_text (Path ''Plant JsonExporter.dll''))) \<and>
   text_lines (scr_text (Path ''Plant JsonExporter.dll'')) =
     [''_.NETLOAD'', dq @ ''Plant JsonExporter.dll'' @ dq, ''_.EXPORTPLANTJSON'',
      ''_.QUIT'', ''Y''] \<and>
   length (text_lines (scr_text (Path ''Plant JsonExporter.dll''))) \<noteq> 4"
proof -
  have "exists demo_world (Path ''Plant JsonExporter.dll'') = Inr True"
    by code_simp
  moreover have "fs (fst (export_plant_json demo_world ''Project.xml'' ''plant.json''
     ''Plant JsonExporter.dll'' ''acad.exe'' ''work'')) (joinpath (Path ''work'') ''run.scr'')
     = Some (File (scr_text (Path ''Plant JsonExporter.dll'')))"
    by code_simp
  moreover have "text_lines (scr_text (Path ''Plant JsonExporter.dll'')) =
     [''_.NETLOAD'', dq @ ''Plant JsonExporter.dll'' @ dq, ''_.EXPORTPLANTJSON'',
      ''_.QUIT'', ''Y'']"
    by code_simp
  ultimately show ?thesis
    using demo_run by simp
qed

text \<open>
  Claim C1, amended. For every plugin path whose text has no line feed, the script text
  of \<open>export_plant_json\<close> has exactly five lines, in this order: \<^verbatim>\<open>_.NETLOAD\<close>, the
  plugin path as pathlib prints it between two double quotes (spaces inside it are kept),
  \<^verbatim>\<open>_.EXPORTPLANTJSON\<close>, \<^verbatim>\<open>_.QUIT\<close>, \<^verbatim>\<open>Y\<close>; that is the four commands load-plugin
  (two lines), invoke-export, quit-host, confirm-quit. The text ends with a line feed, and
  it is what the file \<^verbatim>\<open>run.scr\<close> of the working directory holds, as UTF-8 bytes, whenever
  the host is started.
\<close>

theorem script_text_five_lines:
  assumes "CHR 0x0A \<notin> set (str (Path plugin_dll))"
  shows "text_lines (scr_text (Path plugin_dll)) =
       [''_.NETLOAD'', dq @ str (Path plugin_dll) @ dq, ''_.EXPORTPLANTJSON'', ''_.QUIT'', ''Y''] \<and>
     last (scr_text (Path plugin_dll)) = CHR 0x0A \<and>
     (launched (fst (export_plant_json w project_xml out_json plugin_dll acad_exe workdir)) \<noteq> launched w \<longrightarrow>
      (\<exists>l. launched (fst (export_plant_json w project_xml out_json plugin_dll acad_exe workdir))
          = launched w @ [l] \<and>
        files l (joinpath (Path workdir) ''run.scr'') = Some (File (scr_text (Path plugin_dll)))))"
proof -
  have "last (scr_text (Path plugin_dll)) = CHR 0x0A"
    by (simp add: scr_text_def nl_def)
  then show ?thesis
    using text_lines_scr_text [OF assms]
      export_plant_json_started [of w project_xml out_json plugin_dll acad_exe workdir]
    by blast
qed

theorem script_text_five_lines_witness:
  "CHR 0x0A \<notin> set (str (Path ''Plant JsonExporter.dll'')) \<and>
   text_lines (scr_text (Path ''Plant JsonExporter.dll'')) =
     [''_.NETLOAD'', dq @ ''Plant JsonExporter.dll'' @ dq, ''_.EXPORTPLANTJSON'',
      ''_.QUIT'', ''Y''] \<and>
   last (scr_text (Path ''Plant JsonExporter.dll'')) = CHR 0x0A \<and>
   (\<exists>l. launched (fst (export_plant_json demo_world ''Project.xml'' ''plant.json''
          ''Plant JsonExporter.dll'' ''acad.exe'' ''work'')) = [l] \<and>
     files l \<lparr>anchor = [], tail = [''work'', ''run.scr'']\<rparr>
       = Some (File (scr_text (Path ''Plant JsonExporter.dll''))))"
proof -
  have name: "str (Path ''Plant JsonExporter.dll'') = ''Plant JsonExporter.dll''"
    by code_simp
  have nolf: "CHR 0x0A \<notin> set (str (Path ''Plant JsonExporter.dll''))"
    by (simp add: name)
  have names:
    "joinpath (Path ''work'') ''run.scr'' = \<lparr>anchor = [], tail = [''work'', ''run.scr'']\<rparr>"
    by code_simp
  have start: "launched demo_world = []"
    by (simp add: demo_world_def)
  show ?thesis
    using script_text_five_lines [OF nolf, of demo_world "''Project.xml''" "''plant.json''"
        "''acad.exe''" "''work''"] demo_started nolf name names start
    by simp
qed

text \<open>
  Claim C2, as stated, fails. It says that a request with a required path that does not
  exist is always rejected with \<open>FileNotFoundError\<close>. Below the host executable is a name
  of 300 letters: nothing is stored there, and the existence check of line 22 does not
  answer but raises the \<^verbatim>\<open>OSError\<close> of \<^verbatim>\<open>os.stat\<close> (file name too long), which is what
  \<open>export_plant_json\<close> ends with.
\<close>

theorem missing_input_oserror_counterexample:
  "fs demo_world (Path (replicate 300 (CHR ''a''))) = None \<and>
   snd (export_plant_json demo_world ''Project.xml'' ''plant.json''
     ''Plant JsonExporter.dll'' (replicate 300 (CHR ''a'')) ''work'')
     = Inl (OSError (replicate 300 (CHR ''a''))) \<and>
   \<not> is_FileNotFoundError (OSError (replicate 300 (CHR ''a'')))"
proof -
  have "fs demo_world (Path (replicate 300 (CHR ''a''))) = None"
    by code_simp
  moreover have "snd (export_plant_json demo_world ''Project.xml'' ''plant.json''
     ''Plant JsonExporter.dll'' (replicate 300 (CHR ''a'')) ''work'')
     = Inl (OSError (replicate 300 (CHR ''a'')))"
    by code_simp
  ultimately show ?thesis
    by simp
qed

text \<open>
  Claim C2, amended. Whenever the existence check of one of the three required paths
  (host executable, project file, plugin binary) does not find it, \<open>export_plant_json\<close>
  rejects the request: the file system is as before, so no script file has been created,
  and no child process has been started. The error is about a path that was not found:
  \<open>FileNotFoundError\<close> carrying the text of that path when its check answers that it is
  not there, and the error of the operating system for that path, which is no
  \<open>FileNotFoundError\<close>, when the check itself fails (name too long, permission denied).
\<close>

theorem missing_input_rejected:
  assumes "exists w (Path acad_exe) \<noteq> Inr True \<or> exists w (Path project_xml) \<noteq> Inr True \<or>
           exists w (Path plugin_dll) \<noteq> Inr True"
  shows "fs (fst (export_plant_json w project_xml out_json plugin_dll acad_exe workdir)) = fs w \<and>
     launched (fst (export_plant_json w project_xml out_json plugin_dll acad_exe workdir)) = launched w \<and>
     (\<exists>p. p \<in> {Path acad_exe, Path project_xml, Path plugin_dll} \<and>
        exists w p \<noteq> Inr True \<and>
        (exists w p = Inr False \<longrightarrow>
           snd (export_plant_json w project_xml out_json plugin_dll acad_exe workdir)
             = Inl (FileNotFoundError (str p))) \<and>
        (\<forall>e. exists w p = Inl e \<longrightarrow>
           snd (export_plant_json w project_xml out_json plugin_dll acad_exe workdir) = Inl e \<and>
           error_path e = str p \<and> \<not> is_FileNotFoundError e))"
proof -
  let ?p = "if exists w (Path acad_exe) \<noteq> Inr True then Path acad_exe
            else if exists w (Path project_xml) \<noteq> Inr True then Path project_xml
            else Path plugin_dll"
  have r: "export_plant_json w project_xml out_json plugin_dll acad_exe workdir
      = (w, Inl (check_error w ?p))"
    using assms export_plant_json_rejected [of w acad_exe project_xml plugin_dll out_json workdir]
    by blast
  have p: "?p \<in> {Path acad_exe, Path project_xml, Path plugin_dll}" "exists w ?p \<noteq> Inr True"
    using assms by auto
  have "check_error w ?p = FileNotFoundError (str ?p)" if "exists w ?p = Inr False"
    using that by (simp add: check_error_def)
  moreover have "check_error w ?p = e \<and> error_path e = str ?p \<and> \<not> is_FileNotFoundError e"
    if "exists w ?p = Inl e" for e
    using that exists_raises [OF that] by (simp add: check_error_def)
  ultimately have "(exists w ?p = Inr False \<longrightarrow>
           snd (export_plant_json w project_xml out_json plugin_dll acad_exe workdir)
             = Inl (FileNotFoundError (str ?p))) \<and>
        (\<forall>e. exists w ?p = Inl e \<longrightarrow>
           snd (export_plant_json w project_xml out_json plugin_dll acad_exe workdir) = Inl e \<and>
           error_path e = str ?p \<and> \<not> is_FileNotFoundError e)"
    unfolding r by simp
  then show ?thesis
    using p r by (intro conjI exI [of _ ?p]) simp_all
qed

theorem missing_input_rejected_witness:
  "exists demo_world (Path ''Missing.xml'') = Inr False \<and>
   snd (export_plant_json demo_world ''Missing.xml'' ''plant.json''
     ''Plant JsonExporter.dll'' ''acad.exe'' ''work'')
     = Inl (FileNotFoundError ''Missing.xml'') \<and>
   fs (fst (export_plant_json demo_world ''Missing.xml'' ''plant.json''
     ''Plant JsonExporter.dll'' ''acad.exe'' ''work'')) (joinpath (Path ''work'') ''run.scr'') = None \<and>
   launched (fst (export_plant_json demo_world ''Missing.xml'' ''plant.json''
     ''Plant JsonExporter.dll'' ''acad.exe'' ''work'')) = []"
proof -
  have missing: "exists demo_world (Path ''Missing.xml'') = Inr False"
    by code_simp
  have there: "exists demo_world (Path ''acad.exe'') = Inr True"
    "exists demo_world (Path ''Plant JsonExporter.dll'') = Inr True"
    by code_simp+
  have names: "str (Path ''Missing.xml'') = ''Missing.xml''"
    by code_simp
  have nofile: "fs demo_world (joinpath (Path ''work'') ''run.scr'') = None"
    by code_simp
  have nolaunch: "launched demo_world = []"
    by (simp add: demo_world_def)
  show ?thesis
    using missing_input_rejected [of demo_world "''acad.exe''" "''Missing.xml''"
        "''Plant JsonExporter.dll''" "''plant.json''" "''work''"]
      missing there names nofile nolaunch
    by auto
qed

text \<open>
  Claim C3, as stated, fails in its last part. It says that the exit code of the entry
  point equals the return code \<open>n\<close> of the host. Below the host is killed by signal 9,
  which \<^verbatim>\<open>subprocess\<close> reports as \<open>-9\<close>: \<open>main\<close> returns \<open>-9\<close>, the module ends with
  \<^verbatim>\<open>SystemExit(-9)\<close>, and the exit status of the interpreter is 247.
\<close>

theorem exit_code_truncated_counterexample:
  "length (launched (fst (run_module demo_killed_world))) = 1 \<and>
   map_sum id fst (spawn demo_killed_world (last (launched (fst (run_module demo_killed_world)))))
     = Inr (- 9) \<and>
   snd (main demo_killed_world) = Inr (- 9) \<and>
   snd (run_module demo_killed_world) = SystemExit (- 9) \<and>
   exit_status (snd (run_module demo_killed_world)) = 247 \<and>
   exit_status (snd (run_module demo_killed_world)) \<noteq> - 9"
proof -
  have "length (launched (fst (run_module demo_killed_world))) = 1"
    by code_simp
  moreover have "map_sum id fst
      (spawn demo_killed_world (last (launched (fst (run_module demo_killed_world))))) = Inr (- 9)"
    by (simp add: demo_killed_world_def)
  moreover have "snd (main demo_killed_world) = Inr (- 9)"
    by code_simp
  moreover have "snd (run_module demo_killed_world) = SystemExit (- 9)"
    by code_simp
  moreover have "exit_status (SystemExit (- 9)) = 247"
    by (simp add: exit_status_def)
  ultimately show ?thesis
    by simp
qed

text \<open>
  Claim C3, amended. When the host process is started and ends with return code \<open>n\<close>,
  \<open>export_plant_json\<close> returns \<open>n\<close> as it is, zero or not, as a value and not as an
  error, and so does \<open>main\<close>. The module runs \<open>main\<close> and nothing else, and ends with
  \<^verbatim>\<open>SystemExit(m)\<close> for the value \<open>m\<close> that \<open>main\<close> returns (with the exception of
  \<open>main\<close>, uncaught, when it raises). The exit status of the entry point is \<open>m\<close> itself when
  \<open>m\<close> is between 0 and 255, and \<open>m mod 256\<close> for every \<open>m\<close> that fits a 64-bit integer.
\<close>

theorem exit_code_returned_verbatim:
  "(launched (fst (export_plant_json w project_xml out_json plugin_dll acad_exe workdir))
      = launched w @ [l] \<and> spawn w l = Inr (n, fs')
    \<longrightarrow> snd (export_plant_json w project_xml out_json plugin_dll acad_exe workdir) = Inr n) \<and>
   (launched (fst (main w)) = launched w @ [l] \<and> spawn w l = Inr (n, fs')
    \<longrightarrow> snd (main w) = Inr n) \<and>
   fst (run_module w) = fst (main w) \<and>
   (snd (main w) = Inl e \<longrightarrow> snd (run_module w) = Uncaught e) \<and>
   (snd (main w) = Inr m \<longrightarrow>
      snd (run_module w) = SystemExit m \<and>
      (0 \<le> m \<and> m < 256 \<longrightarrow> exit_status (snd (run_module w)) = m) \<and>
      (- (2 ^ 63) \<le> m \<and> m < 2 ^ 63 \<longrightarrow> exit_status (snd (run_module w)) = m mod 256))"
proof -
  have export: "snd (export_plant_json w a b c d e) = Inr n"
    if "launched (fst (export_plant_json w a b c d e)) = launched w @ [l]"
      and "spawn w l = Inr (n, fs')" for a b c d e
    using export_plant_json_outcome [of w a b c d e] that by auto
  have main: "snd (main w) = Inr n"
    if "launched (fst (main w)) = launched w @ [l]" and "spawn w l = Inr (n, fs')"
    using that export
    by (cases "is_dir w (Path (environ_get w ''PLANT_JSON_OUT'' default_out_json))")
       (auto simp: main_def Let_def)
  have "fst (run_module w) = fst (main w)"
    by (cases "main w") (auto simp: run_module_def split: sum.splits)
  moreover have "snd (run_module w) = Uncaught e" if "snd (main w) = Inl e"
    using that by (cases "main w") (auto simp: run_module_def)
  moreover have "snd (run_module w) = SystemExit m" if "snd (main w) = Inr m"
    using that by (cases "main w") (auto simp: run_module_def)
  moreover have "exit_status (SystemExit m) = m" if "0 \<le> m" "m < 256"
    using that by (simp add: exit_status_def)
  moreover have "exit_status (SystemExit m) = m mod 256" if "- (2 ^ 63) \<le> m" "m < 2 ^ 63"
    using that by (simp add: exit_status_def)
  ultimately show ?thesis
    using export main by simp
qed

theorem exit_code_returned_verbatim_witness:
  "snd (export_plant_json demo_world ''Project.xml'' ''plant.json''
     ''Plant JsonExporter.dll'' ''acad.exe'' ''work'') = Inr 7 \<and>
   snd (main demo_main_world) = Inr 7 \<and>
   snd (run_module demo_main_world) = SystemExit 7 \<and>
   exit_status (snd (run_module demo_main_world)) = 7"
proof -
  let ?r = "export_plant_json demo_world ''Project.xml'' ''plant.json''
     ''Plant JsonExporter.dll'' ''acad.exe'' ''work''"
  have l1: "launched (fst ?r) = launched demo_world @ [last (launched (fst ?r))]"
    by (simp add: demo_world_def export_plant_json_def exists_def os_stat_def Path_def
        splitroot_def mkdir.simps os_mkdir_def parent_def str_def is_dir_def joinpath_def
        write_text_def subprocess_run_def Let_def)
  have s1: "spawn demo_world (last (launched (fst ?r))) = Inr (7, files (last (launched (fst ?r))))"
    by (simp add: demo_world_def)
  let ?m = "main demo_main_world"
  have l2: "launched (fst ?m) = launched demo_main_world @ [last (launched (fst ?m))]"
    by (simp add: demo_main_world_def main_def environ_get_def default_plugin_dll_def
        default_acad_exe_def default_workdir_def default_project_xml_def default_out_json_def bs_def
        export_plant_json_def exists_def os_stat_def Path_def splitroot_def
        mkdir.simps os_mkdir_def parent_def str_def is_dir_def joinpath_def write_text_def
        subprocess_run_def Let_def)
  have s2: "spawn demo_main_world (last (launched (fst ?m))) = Inr (7, files (last (launched (fst ?m))))"
    by (simp add: demo_main_world_def)
  have e1: "snd ?r = Inr 7"
    using exit_code_returned_verbatim [of demo_world "''Project.xml''" "''plant.json''"
        "''Plant JsonExporter.dll''" "''acad.exe''" "''work''"
        "last (launched (fst ?r))" 7 "files (last (launched (fst ?r)))"] l1 s1
    by blast
  have e2: "snd ?m = Inr 7"
    using exit_code_returned_verbatim [of demo_main_world "''Project.xml''" "''plant.json''"
        "''Plant JsonExporter.dll''" "''acad.exe''" "''work''"
        "last (launched (fst ?m))" 7 "files (last (launched (fst ?m)))"] l2 s2
    by blast
  note entry = exit_code_returned_verbatim [of demo_main_world "''Project.xml''" "''plant.json''"
        "''Plant JsonExporter.dll''" "''acad.exe''" "''work''" _ _ _ _ 7]
  have e3: "snd (run_module demo_main_world) = SystemExit 7"
    using entry e2 by blast
  have "(0::int) \<le> 7 \<and> (7::int) < 256 \<longrightarrow> exit_status (snd (run_module demo_main_world)) = 7"
    using entry e2 by blast
  then have e4: "exit_status (snd (run_module demo_main_world)) = 7"
    by simp
  show ?thesis
    using e1 e2 e3 e4 by blast
qed

text \<open>
  Claim C4. The script text is a function of the plugin path alone. Take two runs that
  get as far as starting the host, in any two worlds, with any project files, output
  paths, executables and working directories, and the same plugin path: the script files
  the two hosts find are byte for byte the same text. That text is made of fixed words
  and of the plugin path, and of nothing else: the project path and the output path are
  not used to build it.
\<close>

theorem script_depends_on_plugin_only:
  assumes "launched (fst (export_plant_json w1 project_xml1 out_json1 plugin_dll acad_exe1 workdir1))
      \<noteq> launched w1"
    and "launched (fst (export_plant_json w2 project_xml2 out_json2 plugin_dll acad_exe2 workdir2))
      \<noteq> launched w2"
  shows "\<exists>l1 l2 t.
     launched (fst (export_plant_json w1 project_xml1 out_json1 plugin_dll acad_exe1 workdir1))
       = launched w1 @ [l1] \<and>
     launched (fst (export_plant_json w2 project_xml2 out_json2 plugin_dll acad_exe2 workdir2))
       = launched w2 @ [l2] \<and>
     files l1 (joinpath (Path workdir1) ''run.scr'') = Some (File t) \<and>
     files l2 (joinpath (Path workdir2) ''run.scr'') = Some (File t) \<and>
     t = scr_text (Path plugin_dll) \<and>
     t = ''_.NETLOAD'' @ nl @ dq @ str (Path plugin_dll) @ dq @ nl @
         ''_.EXPORTPLANTJSON'' @ nl @ ''_.QUIT'' @ nl @ ''Y'' @ nl"
proof -
  have "scr_text (Path plugin_dll) = ''_.NETLOAD'' @ nl @ dq @ str (Path plugin_dll) @ dq @ nl @
         ''_.EXPORTPLANTJSON'' @ nl @ ''_.QUIT'' @ nl @ ''Y'' @ nl"
    by (simp add: scr_text_def)
  then show ?thesis
    using export_plant_json_started [OF assms(1)] export_plant_json_started [OF assms(2)]
    by metis
qed

theorem script_depends_on_plugin_only_witness:
  "\<exists>l1 l2.
     launched (fst (export_plant_json demo_world ''Project.xml'' ''plant.json''
        ''Plant JsonExporter.dll'' ''acad.exe'' ''work'')) = [l1] \<and>
     launched (fst (export_plant_json demo_world ''Other.xml'' ''other.json''
        ''Plant JsonExporter.dll'' ''acad.exe'' ''work2'')) = [l2] \<and>
     files l1 \<lparr>anchor = [], tail = [''work'', ''run.scr'']\<rparr>
       = Some (File (scr_text (Path ''Plant JsonExporter.dll''))) \<and>
     files l2 \<lparr>anchor = [], tail = [''work2'', ''run.scr'']\<rparr>
       = Some (File (scr_text (Path ''Plant JsonExporter.dll'')))"
proof -
  have names:
    "joinpath (Path ''work'') ''run.scr'' = \<lparr>anchor = [], tail = [''work'', ''run.scr'']\<rparr>"
    "joinpath (Path ''work2'') ''run.scr'' = \<lparr>anchor = [], tail = [''work2'', ''run.scr'']\<rparr>"
    by code_simp+
  have start: "launched demo_world = []"
    by (simp add: demo_world_def)
  show ?thesis
    using script_depends_on_plugin_only [OF demo_started demo_other_started] names start
    by auto
qed

text \<open>
  Claim C5. In every successful run the script has been written to \<^verbatim>\<open>run.scr\<close> in the
  working directory when the child starts, the child is started with exactly the argument
  vector host executable, \<^verbatim>\<open>/product\<close>, \<^verbatim>\<open>PLNT3D\<close>, \<^verbatim>\<open>/b\<close>, path of that script,
  and its working directory is the working directory of the request.
\<close>

theorem launch_argument_vector:
  assumes "snd (export_plant_json w project_xml out_json plugin_dll acad_exe workdir) = Inr n"
  shows "\<exists>l. launched (fst (export_plant_json w project_xml out_json plugin_dll acad_exe workdir))
        = launched w @ [l] \<and>
     files l (joinpath (Path workdir) ''run.scr'') = Some (File (scr_text (Path plugin_dll))) \<and>
     argv l = [str (Path acad_exe), ''/product'', ''PLNT3D'', ''/b'',
               str (joinpath (Path workdir) ''run.scr'')] \<and>
     cwd l = str (Path workdir)"
  using export_plant_json_started [OF export_plant_json_success [OF assms]] by blast

theorem launch_argument_vector_witness:
  "snd (export_plant_json demo_world ''Project.xml'' ''plant.json''
     ''Plant JsonExporter.dll'' ''acad.exe'' ''work'') = Inr 7 \<and>
   (\<exists>l. launched (fst (export_plant_json demo_world ''Project.xml'' ''plant.json''
          ''Plant JsonExporter.dll'' ''acad.exe'' ''work'')) = [l] \<and>
     files l \<lparr>anchor = [], tail = [''work'', ''run.scr'']\<rparr>
       = Some (File (scr_text (Path ''Plant JsonExporter.dll''))) \<and>
     argv l = [''acad.exe'', ''/product'', ''PLNT3D'', ''/b'', ''work/run.scr''] \<and>
     cwd l = ''work'')"
proof -
  have names: "str (Path ''acad.exe'') = ''acad.exe''"
    "str (joinpath (Path ''work'') ''run.scr'') = ''work/run.scr''"
    "joinpath (Path ''work'') ''run.scr'' = \<lparr>anchor = [], tail = [''work'', ''run.scr'']\<rparr>"
    "str (Path ''work'') = ''work''"
    by code_simp+
  have start: "launched demo_world = []"
    by (simp add: demo_world_def)
  show ?thesis
    using launch_argument_vector [OF demo_run] demo_run names start by simp
qed

text \<open>
  Claim C6. The run leaves \<^verbatim>\<open>os.environ\<close> as it was, whatever happens. Whenever a
  child is started, the environment handed to it is the caller's environment with two
  entries set, \<^verbatim>\<open>PLANT_PROJECT_XML\<close> to the project file path and \<^verbatim>\<open>PLANT_JSON_OUT\<close>
  to the output path, both as text; every other variable is as the caller has it.
\<close>

theorem child_environment:
  "environ (fst (export_plant_json w project_xml out_json plugin_dll acad_exe workdir)) = environ w \<and>
   (launched (fst (export_plant_json w project_xml out_json plugin_dll acad_exe workdir)) \<noteq> launched w \<longrightarrow>
    (\<exists>l. launched (fst (export_plant_json w project_xml out_json plugin_dll acad_exe workdir))
        = launched w @ [l] \<and>
      env l = (environ w)(''PLANT_PROJECT_XML'' \<mapsto> str (Path project_xml),
                          ''PLANT_JSON_OUT'' \<mapsto> str (Path out_json))))"
proof -
  have "environ (fst (export_plant_json w project_xml out_json plugin_dll acad_exe workdir)) = environ w"
    using export_plant_json_outcome [of w project_xml out_json plugin_dll acad_exe workdir]
    by blast
  then show ?thesis
    using export_plant_json_started [of w project_xml out_json plugin_dll acad_exe workdir]
    by blast
qed

theorem child_environment_witness:
  "environ (fst (export_plant_json demo_world ''Project.xml'' ''plant.json''
          ''Plant JsonExporter.dll'' ''acad.exe'' ''work''))
     = [''PATH'' \<mapsto> ''/usr/bin''] \<and>
   (\<exists>l. launched (fst (export_plant_json demo_world ''Project.xml'' ''plant.json''
          ''Plant JsonExporter.dll'' ''acad.exe'' ''work'')) = [l] \<and>
     env l = [''PATH'' \<mapsto> ''/usr/bin'', ''PLANT_PROJECT_XML'' \<mapsto> ''Project.xml'',
              ''PLANT_JSON_OUT'' \<mapsto> ''plant.json''])"
proof -
  have names: "str (Path ''Project.xml'') = ''Project.xml''"
    "str (Path ''plant.json'') = ''plant.json''"
    by code_simp+
  have start: "launched demo_world = []" "environ demo_world = [''PATH'' \<mapsto> ''/usr/bin'']"
    by (simp_all add: demo_world_def)
  show ?thesis
    using child_environment [of demo_world "''Project.xml''" "''plant.json''"
        "''Plant JsonExporter.dll''" "''acad.exe''" "''work''"]
      demo_started names start
    by simp
qed

text \<open>
  Claim C7, as stated, fails. It says that the two variables always carry absolute
  paths. In the run below the caller gives a relative project path and a relative output
  path; the child finds both variables set to these relative paths.
\<close>

theorem environment_paths_relative_counterexample:
  "snd (export_plant_json demo_world ''Project.xml'' ''plant.json''
     ''Plant JsonExporter.dll'' ''acad.exe'' ''work'') = Inr 7 \<and>
   env (last (launched (fst (export_plant_json demo_world ''Project.xml'' ''plant.json''
     ''Plant JsonExporter.dll'' ''acad.exe'' ''work'')))) ''PLANT_PROJECT_XML''
     = Some ''Project.xml'' \<and>
   \<not> is_absolute (Path ''Project.xml'') \<and>
   env (last (launched (fst (export_plant_json demo_world ''Project.xml'' ''plant.json''
     ''Plant JsonExporter.dll'' ''acad.exe'' ''work'')))) ''PLANT_JSON_OUT''
     = Some ''plant.json'' \<and>
   \<not> is_absolute (Path ''plant.json'')"
proof -
  have "env (last (launched (fst (export_plant_json demo_world ''Project.xml'' ''plant.json''
     ''Plant JsonExporter.dll'' ''acad.exe'' ''work'')))) ''PLANT_PROJECT_XML''
     = Some ''Project.xml''"
    by code_simp
  moreover have "env (last (launched (fst (export_plant_json demo_world ''Project.xml'' ''plant.json''
     ''Plant JsonExporter.dll'' ''acad.exe'' ''work'')))) ''PLANT_JSON_OUT''
     = Some ''plant.json''"
    by code_simp
  moreover have "\<not> is_absolute (Path ''Project.xml'')" "\<not> is_absolute (Path ''plant.json'')"
    by code_simp+
  ultimately show ?thesis
    using demo_run by simp
qed

text \<open>
  Claim C7, amended. Every path goes through \<open>Path\<close>, which tidies its text (repeated
  and trailing separators and single dots go) and resolves nothing, and it is used in
  that form: the three inputs are checked, the host executable and the script path stand
  in the argument vector, the working directory is the child's, the plugin path stands
  in the script, and the two variables the child sees carry the project path and the
  output path. Each of the two begins with a slash, that is, is absolute, exactly when
  the text the caller supplied does: a relative path stays relative.
\<close>

theorem environment_paths_as_given:
  assumes "launched (fst (export_plant_json w project_xml out_json plugin_dll acad_exe workdir)) \<noteq> launched w"
  shows "\<exists>l. launched (fst (export_plant_json w project_xml out_json plugin_dll acad_exe workdir))
        = launched w @ [l] \<and>
     exists w (Path acad_exe) = Inr True \<and> exists w (Path project_xml) = Inr True \<and>
     exists w (Path plugin_dll) = Inr True \<and>
     argv l = [str (Path acad_exe), ''/product'', ''PLNT3D'', ''/b'',
               str (joinpath (Path workdir) ''run.scr'')] \<and>
     cwd l = str (Path workdir) \<and>
     files l (joinpath (Path workdir) ''run.scr'') = Some (File (scr_text (Path plugin_dll))) \<and>
     env l ''PLANT_PROJECT_XML'' = Some (str (Path project_xml)) \<and>
     env l ''PLANT_JSON_OUT'' = Some (str (Path out_json)) \<and>
     (begins_with_slash (str (Path project_xml)) \<longleftrightarrow> begins_with_slash project_xml) \<and>
     (begins_with_slash (str (Path out_json)) \<longleftrightarrow> begins_with_slash out_json) \<and>
     (is_absolute (Path (str (Path project_xml))) \<longleftrightarrow> begins_with_slash project_xml) \<and>
     (is_absolute (Path (str (Path out_json))) \<longleftrightarrow> begins_with_slash out_json)"
proof -
  have found: "exists w (Path acad_exe) = Inr True \<and> exists w (Path project_xml) = Inr True \<and>
     exists w (Path plugin_dll) = Inr True"
    using export_plant_json_outcome [of w project_xml out_json plugin_dll acad_exe workdir] assms
    by auto
  obtain l where l: "launched (fst (export_plant_json w project_xml out_json plugin_dll acad_exe workdir))
        = launched w @ [l]"
      "argv l = [str (Path acad_exe), ''/product'', ''PLNT3D'', ''/b'',
               str (joinpath (Path workdir) ''run.scr'')]"
      "env l = (environ w)(''PLANT_PROJECT_XML'' \<mapsto> str (Path project_xml),
                         ''PLANT_JSON_OUT'' \<mapsto> str (Path out_json))"
      "cwd l = str (Path workdir)"
      "files l (joinpath (Path workdir) ''run.scr'') = Some (File (scr_text (Path plugin_dll)))"
    using export_plant_json_started [OF assms] by blast
  have "env l ''PLANT_PROJECT_XML'' = Some (str (Path project_xml))"
    "env l ''PLANT_JSON_OUT'' = Some (str (Path out_json))"
    by (simp_all add: l(3))
  then show ?thesis
    using l(1,2,4,5) found
    by (intro exI [of _ l]) (simp add: str_Path_begins_with_slash is_absolute_Path)
qed

theorem environment_paths_as_given_witness:
  "\<exists>l. launched (fst (export_plant_json demo_world ''/data//Project.xml'' ''sub//plant.json''
          ''./Plant JsonExporter.dll'' ''.//acad.exe'' ''work/'')) = [l] \<and>
     argv l = [''acad.exe'', ''/product'', ''PLNT3D'', ''/b'', ''work/run.scr''] \<and>
     cwd l = ''work'' \<and>
     files l \<lparr>anchor = [], tail = [''work'', ''run.scr'']\<rparr>
       = Some (File (scr_text \<lparr>anchor = [], tail = [''Plant JsonExporter.dll'']\<rparr>)) \<and>
     env l ''PLANT_PROJECT_XML'' = Some ''/data/Project.xml'' \<and>
     env l ''PLANT_JSON_OUT'' = Some ''sub/plant.json'' \<and>
     begins_with_slash ''/data/Project.xml'' \<and> begins_with_slash ''/data//Project.xml'' \<and>
     \<not> begins_with_slash ''sub/plant.json'' \<and> \<not> begins_with_slash ''sub//plant.json''"
proof -
  have names: "str (Path ''/data//Project.xml'') = ''/data/Project.xml''"
    "str (Path ''sub//plant.json'') = ''sub/plant.json''"
    "str (Path ''.//acad.exe'') = ''acad.exe''"
    "str (Path ''work/'') = ''work''"
    "str (joinpath (Path ''work/'') ''run.scr'') = ''work/run.scr''"
    "joinpath (Path ''work/'') ''run.scr'' = \<lparr>anchor = [], tail = [''work'', ''run.scr'']\<rparr>"
    "Path ''./Plant JsonExporter.dll'' = \<lparr>anchor = [], tail = [''Plant JsonExporter.dll'']\<rparr>"
    by code_simp+
  have slashes: "begins_with_slash ''/data/Project.xml''" "begins_with_slash ''/data//Project.xml''"
    "\<not> begins_with_slash ''sub/plant.json''" "\<not> begins_with_slash ''sub//plant.json''"
    by (simp_all add: begins_with_slash_def)
  have start: "launched demo_world = []"
    by (simp add: demo_world_def)
  show ?thesis
    using environment_paths_as_given [OF demo_untidy_started] names slashes start by auto
qed

text \<open>
  Claim C8. When the output path the entry point reads (the variable
  \<^verbatim>\<open>PLANT_JSON_OUT\<close> or its default) is an existing directory, \<open>main\<close> calls
  \<open>export_plant_json\<close> with that directory joined with \<^verbatim>\<open>plant_export.json\<close>, and
  whenever a child is started this joined path is the value of \<^verbatim>\<open>PLANT_JSON_OUT\<close> in
  its environment.
\<close>

theorem main_appends_default_filename:
  assumes "is_dir w (Path (environ_get w ''PLANT_JSON_OUT'' default_out_json)) = Inr True"
  shows "main w = export_plant_json w
       (environ_get w ''PLANT_PROJECT_XML'' default_project_xml)
       (str (joinpath (Path (environ_get w ''PLANT_JSON_OUT'' default_out_json)) ''plant_export.json''))
       (environ_get w ''PLANT_PLUGIN_DLL'' (str (default_plugin_dll w)))
       default_acad_exe default_workdir \<and>
     (launched (fst (main w)) \<noteq> launched w \<longrightarrow>
      (\<exists>l. launched (fst (main w)) = launched w @ [l] \<and>
        env l ''PLANT_JSON_OUT'' =
          Some (str (joinpath (Path (environ_get w ''PLANT_JSON_OUT'' default_out_json))
                  ''plant_export.json''))))"
proof -
  let ?o = "environ_get w ''PLANT_JSON_OUT'' default_out_json"
  let ?o' = "str (joinpath (Path ?o) ''plant_export.json'')"
  let ?p = "environ_get w ''PLANT_PROJECT_XML'' default_project_xml"
  let ?d = "environ_get w ''PLANT_PLUGIN_DLL'' (str (default_plugin_dll w))"
  have m: "main w = export_plant_json w ?p ?o' ?d default_acad_exe default_workdir"
    using assms by (simp add: main_def Let_def)
  have "\<exists>l. launched (fst (main w)) = launched w @ [l] \<and> env l ''PLANT_JSON_OUT'' = Some ?o'"
    if "launched (fst (main w)) \<noteq> launched w"
  proof -
    have s: "launched (fst (export_plant_json w ?p ?o' ?d default_acad_exe default_workdir))
        \<noteq> launched w"
      using that m by simp
    obtain l where l:
      "launched (fst (export_plant_json w ?p ?o' ?d default_acad_exe default_workdir))
         = launched w @ [l]"
      "env l = (environ w)(''PLANT_PROJECT_XML'' \<mapsto> str (Path ?p),
                          ''PLANT_JSON_OUT'' \<mapsto> str (Path ?o'))"
      using export_plant_json_started [OF s] by blast
    have "env l ''PLANT_JSON_OUT'' = Some ?o'"
      by (simp add: l(2))
    then show ?thesis
      using l(1) m by auto
  qed
  then show ?thesis
    using m by blast
qed

theorem main_appends_default_filename_witness:
  "is_dir demo_main_world (Path ''exports'') = Inr True \<and>
   (\<exists>l. launched (fst (main demo_main_world)) = [l] \<and>
     env l ''PLANT_JSON_OUT'' = Some ''exports/plant_export.json'')"
proof -
  have out: "environ_get demo_main_world ''PLANT_JSON_OUT'' default_out_json = ''exports''"
    by code_simp
  have dir: "is_dir demo_main_world (Path ''exports'') = Inr True"
    by code_simp
  have name: "str (joinpath (Path ''exports'') ''plant_export.json'') = ''exports/plant_export.json''"
    by code_simp
  have start: "launched demo_main_world = []"
    by (simp add: demo_main_world_def)
  have "\<exists>l. launched (fst (main demo_main_world)) = launched demo_main_world @ [l] \<and>
     env l ''PLANT_JSON_OUT'' = Some (str (joinpath (Path ''exports'') ''plant_export.json''))"
    using main_appends_default_filename [of demo_main_world, unfolded out] dir demo_main_started
    by blast
  then show ?thesis
    using dir name start by simp
qed



text \<open>
  Claim C10. Only the entry point replaces a directory by a file inside it. In a direct
  call of \<open>export_plant_json\<close> whose output path is an existing directory, a child that
  is started finds \<^verbatim>\<open>PLANT_JSON_OUT\<close> set to that directory itself, which differs from
  the directory joined with \<^verbatim>\<open>plant_export.json\<close>.
\<close>

theorem direct_call_keeps_directory:
  assumes "is_dir w (Path out_json) = Inr True"
    and "launched (fst (export_plant_json w project_xml out_json plugin_dll acad_exe workdir)) \<noteq> launched w"
  shows "\<exists>l. launched (fst (export_plant_json w project_xml out_json plugin_dll acad_exe workdir))
        = launched w @ [l] \<and>
     env l ''PLANT_JSON_OUT'' = Some (str (Path out_json)) \<and>
     env l ''PLANT_JSON_OUT'' \<noteq> Some (str (joinpath (Path out_json) ''plant_export.json''))"
proof -
  obtain l where l: "launched (fst (export_plant_json w project_xml out_json plugin_dll acad_exe workdir))
        = launched w @ [l]"
      "env l = (environ w)(''PLANT_PROJECT_XML'' \<mapsto> str (Path project_xml),
                         ''PLANT_JSON_OUT'' \<mapsto> str (Path out_json))"
    using export_plant_json_started [OF assms(2)] by blast
  have "env l ''PLANT_JSON_OUT'' = Some (str (Path out_json))"
    by (simp add: l(2))
  moreover have "str (Path out_json) \<noteq> str (joinpath (Path out_json) ''plant_export.json'')"
    using str_joinpath_differs [of "Path out_json"] by simp
  ultimately show ?thesis
    using l(1) by (intro exI [of _ l]) simp
qed

theorem direct_call_keeps_directory_witness:
  "is_dir demo_world (Path ''out'') = Inr True \<and>
   (\<exists>l. launched (fst (export_plant_json demo_world ''Project.xml'' ''out''
          ''Plant JsonExporter.dll'' ''acad.exe'' ''work'')) = [l] \<and>
     env l ''PLANT_JSON_OUT'' = Some ''out'' \<and>
     env l ''PLANT_JSON_OUT'' \<noteq> Some ''out/plant_export.json'')"
proof -
  have dir: "is_dir demo_world (Path ''out'') = Inr True"
    by code_simp
  have names: "str (Path ''out'') = ''out''"
    "str (joinpath (Path ''out'') ''plant_export.json'') = ''out/plant_export.json''"
    by code_simp+
  have start: "launched demo_world = []"
    by (simp add: demo_world_def)
  show ?thesis
    using direct_call_keeps_directory [OF dir demo_dir_started] dir names start by simp
qed

end
